theory Spec2Isabelle
  imports Complex_Main
begin

section \<open>Arrays and exceptions\<close>

text \<open>
  Python exceptions that the modelled functions can raise. A function that can raise
  returns \<open>error + 'a\<close>, with \<open>Inl\<close> for the exception.
\<close>

datatype error = IndexError | ValueError | ZeroDivisionError

text \<open>
  One-dimensional arrays are lists. Array elements are real numbers where every value the
  code computes from finite inputs is finite; rounding is not modelled.
\<close>

text \<open>\<open>np.diff\<close>: the differences of neighbouring elements.\<close>

fun np_diff :: "'a::minus list \<Rightarrow> 'a list" where
  "np_diff (x # y # xs) = (y - x) # np_diff (y # xs)"
| "np_diff _ = []"

text \<open>\<open>np.cumsum\<close>: the running sums.\<close>

definition np_cumsum :: "real list \<Rightarrow> real list" where
  "np_cumsum xs = map (\<lambda>i. sum_list (take (Suc i) xs)) [0..<length xs]"

text \<open>
  \<open>xs[idx]\<close> for an array \<open>idx\<close> of non-negative indices: the selected elements, or
  \<open>IndexError\<close> when an index is out of bounds.
\<close>

definition np_take :: "'a list \<Rightarrow> nat list \<Rightarrow> error + 'a list" where
  "np_take xs idx =
     (if \<forall>i \<in> set idx. i < length xs then Inr (map (\<lambda>i. xs ! i) idx) else Inl IndexError)"

text \<open>
  An elementwise operation on two one-dimensional arrays: numpy accepts equal lengths,
  stretches an operand of length one over the other, and raises \<open>ValueError\<close> for any
  other pair of lengths.
\<close>

definition np_broadcast2 :: "('a \<Rightarrow> 'b \<Rightarrow> 'c) \<Rightarrow> 'a list \<Rightarrow> 'b list \<Rightarrow> error + 'c list" where
  "np_broadcast2 g xs ys =
     (if length xs = length ys then Inr (map2 g xs ys)
      else if length ys = 1 then Inr (map (\<lambda>x. g x (hd ys)) xs)
      else if length xs = 1 then Inr (map (g (hd xs)) ys)
      else Inl ValueError)"


section \<open>Burst segmentation: \<open>identify_samples\<close>\<close>

text \<open>
  Timestamps are \<open>datetime64[ns]\<close> values, modelled as integer nanoseconds. The
  \<open>.dt.seconds\<close> accessor of a time difference is the seconds component of the
  timedelta (whole seconds within the day, days split off).
\<close>

definition dt_seconds :: "int \<Rightarrow> int" where
  "dt_seconds d = (d div 1000000000) mod 86400"

text \<open>\<open>np.where(dt > threshold)[0]\<close>: the indices at which the test holds, ascending.\<close>

definition where_gt :: "int list \<Rightarrow> int \<Rightarrow> nat list" where
  "where_gt xs c = filter (\<lambda>i. xs ! i > c) [0..<length xs]"

text \<open>
  \<open>sample[start:end] = v\<close> for non-negative bounds: numpy clips the slice to the array,
  and an empty slice assigns nothing.
\<close>

definition slice_assign :: "'a list \<Rightarrow> nat \<Rightarrow> nat \<Rightarrow> 'a \<Rightarrow> 'a list" where
  "slice_assign xs start end v =
     map (\<lambda>j. if start \<le> j \<and> j < end then v else xs ! j) [0..<length xs]"

text \<open>The body of \<open>for i, end in enumerate(ends)\<close>, run over the enumerated pairs.\<close>

fun sample_loop :: "nat list \<Rightarrow> (nat \<times> nat) list \<Rightarrow> int list \<Rightarrow> int list" where
  "sample_loop ends [] sample = sample"
| "sample_loop ends ((i, end) # rest) sample =
     (let (start, end') =
        (if i = 0 then (0, end)
         else if end = last ends then (ends ! (i - 1), length sample + 1)
         else (ends ! (i - 1), end))
      in sample_loop ends rest (slice_assign sample start end' (int i)))"

definition identify_samples :: "int list \<Rightarrow> int \<Rightarrow> int list" where
  "identify_samples time threshold =
     (let dt = map dt_seconds (np_diff time);
          ends = map (\<lambda>k. k + 1) (where_gt dt threshold);
          sample = replicate (length time) 0
      in sample_loop ends (enumerate 0 ends) sample)"

lemma slice_assign_replicate:
  "slice_assign (replicate n v) start end v = replicate n v"
  by (simp add: slice_assign_def list_eq_iff_nth_eq)

text \<open>
  With one gap the loop body runs once, with \<open>i = 0\<close>: it writes id 0 over the first
  run and returns; the samples after the gap keep the 0 they were initialised with.
\<close>

lemma identify_samples_single_gap:
  assumes "where_gt (map dt_seconds (np_diff time)) threshold = [k]"
  shows "identify_samples time threshold = replicate (length time) 0"
  using assms by (simp add: identify_samples_def slice_assign_replicate)

text \<open>
  Claim C1. Burst segmentation should give each contiguous run of samples between
  above-threshold gaps its own increasing burst id, so a series with exactly one gap
  (3000 s against a threshold of 2400 s) should come back with two ids, one per side of
  the gap. On the four samples at 0 s, 1 s, 3001 s and 3002 s the function returns the
  id 0 for every sample: the run after the last gap never receives an id of its own.
\<close>

theorem identify_samples_one_gap_single_id:
  "identify_samples [0, 1000000000, 3001000000000, 3002000000000] 2400 = [0, 0, 0, 0]"
  by (simp add: identify_samples_def where_gt_def dt_seconds_def slice_assign_def)


section \<open>Frame rotation: \<open>rotate\<close>\<close>

text \<open>
  A \<open>(3 x n)\<close> array is modelled as the list of its \<open>n\<close> columns, so that the three
  rows have the same length by construction; \<open>IN[0,:]\<close>, \<open>IN[1,:]\<close>, \<open>IN[2,:]\<close> are
  the three components of the columns, and \<open>np.vstack((u, v, w))\<close> puts the three result
  rows back into columns. Array elements are real numbers: rounding is not modelled.

  \<open>rotate_sample\<close> is the arithmetic of \<open>rotate\<close> at one sample index, with the
  expressions for \<open>u\<close>, \<open>v\<close>, \<open>w\<close> of both branches as the source writes them.
\<close>

type_synonym vec3 = "real \<times> real \<times> real"

fun rotate_sample :: "int \<Rightarrow> vec3 \<Rightarrow> vec3 \<Rightarrow> vec3" where
  "rotate_sample IFLAG (up, vp, wp) (phi, theta, psi) =
     (if IFLAG = 1 then
        (up * cos theta * cos psi + vp * cos theta * sin psi - wp * sin theta,
         up * (sin phi * sin theta * cos psi - cos phi * sin psi)
           + vp * (sin phi * sin theta * sin psi + cos phi * cos psi)
           + wp * (cos theta * sin phi),
         up * (cos phi * sin theta * cos psi + sin phi * sin psi)
           + vp * (cos phi * sin theta * sin psi - sin phi * cos psi)
           + wp * (cos theta * cos phi))
      else
        (up * cos theta * cos psi
           + vp * (sin phi * sin theta * cos psi - cos phi * sin psi)
           + wp * (cos phi * sin theta * cos psi + sin phi * sin psi),
         up * cos theta * sin psi
           + vp * (sin phi * sin theta * sin psi + cos phi * cos psi)
           + wp * (cos phi * sin theta * sin psi - sin phi * cos psi),
         up * (- sin theta) + vp * (cos theta * sin phi) + wp * (cos theta * cos phi)))"

text \<open>
  The elementwise operators combine rows of \<open>IN\<close> (length \<open>n\<close>) with rows of \<open>ANGLES\<close>
  (length \<open>m\<close>), under the broadcasting rule of \<open>np_broadcast2\<close>.
\<close>

definition rotate :: "vec3 list \<Rightarrow> vec3 list \<Rightarrow> int \<Rightarrow> error + vec3 list" where
  "rotate IN ANGLES IFLAG = np_broadcast2 (rotate_sample IFLAG) IN ANGLES"

text \<open>
  The three components of the round trip as polynomial identities in the sines and
  cosines, which enter only through \<open>sin\<^sup>2 + cos\<^sup>2 = 1\<close>.
\<close>

lemma round_trip_u:
  fixes s1 c1 s2 c2 s3 c3 :: real
  assumes "s1\<^sup>2 + c1\<^sup>2 = 1" "s2\<^sup>2 + c2\<^sup>2 = 1" "s3\<^sup>2 + c3\<^sup>2 = 1"
  shows "(up * c2 * c3 + vp * (s1 * s2 * c3 - c1 * s3) + wp * (c1 * s2 * c3 + s1 * s3)) * c2 * c3
       + (up * c2 * s3 + vp * (s1 * s2 * s3 + c1 * c3) + wp * (c1 * s2 * s3 - s1 * c3)) * c2 * s3
       - (up * (- s2) + vp * (c2 * s1) + wp * (c2 * c1)) * s2 = up"
  using assms by algebra

lemma round_trip_v:
  fixes s1 c1 s2 c2 s3 c3 :: real
  assumes "s1\<^sup>2 + c1\<^sup>2 = 1" "s2\<^sup>2 + c2\<^sup>2 = 1" "s3\<^sup>2 + c3\<^sup>2 = 1"
  shows "(up * c2 * c3 + vp * (s1 * s2 * c3 - c1 * s3) + wp * (c1 * s2 * c3 + s1 * s3))
           * (s1 * s2 * c3 - c1 * s3)
       + (up * c2 * s3 + vp * (s1 * s2 * s3 + c1 * c3) + wp * (c1 * s2 * s3 - s1 * c3))
           * (s1 * s2 * s3 + c1 * c3)
       + (up * (- s2) + vp * (c2 * s1) + wp * (c2 * c1)) * (c2 * s1) = vp"
  using assms by algebra

lemma round_trip_w:
  fixes s1 c1 s2 c2 s3 c3 :: real
  assumes "s1\<^sup>2 + c1\<^sup>2 = 1" "s2\<^sup>2 + c2\<^sup>2 = 1" "s3\<^sup>2 + c3\<^sup>2 = 1"
  shows "(up * c2 * c3 + vp * (s1 * s2 * c3 - c1 * s3) + wp * (c1 * s2 * c3 + s1 * s3))
           * (c1 * s2 * c3 + s1 * s3)
       + (up * c2 * s3 + vp * (s1 * s2 * s3 + c1 * c3) + wp * (c1 * s2 * s3 - s1 * c3))
           * (c1 * s2 * s3 - s1 * c3)
       + (up * (- s2) + vp * (c2 * s1) + wp * (c2 * c1)) * (c2 * c1) = wp"
  using assms by algebra

lemma rotate_sample_round_trip:
  "rotate_sample 1 (rotate_sample 0 x a) a = x"
proof (cases x, cases a)
  fix up vp wp phi theta psi
  assume x: "x = (up, vp, wp)" and a: "a = (phi, theta, psi)"
  have unit: "(sin phi)\<^sup>2 + (cos phi)\<^sup>2 = 1" "(sin theta)\<^sup>2 + (cos theta)\<^sup>2 = 1"
    "(sin psi)\<^sup>2 + (cos psi)\<^sup>2 = 1"
    by simp_all
  show ?thesis
    using round_trip_u [OF unit, of up vp wp] round_trip_v [OF unit, of up vp wp]
      round_trip_w [OF unit, of up vp wp]
    by (simp add: x a mult.commute mult.left_commute mult.assoc)
qed

lemma map2_rotate_round_trip:
  "length IN = length ANGLES \<Longrightarrow>
     map2 (rotate_sample 1) (map2 (rotate_sample 0) IN ANGLES) ANGLES = IN"
  by (induction IN ANGLES rule: list_induct2) (simp_all add: rotate_sample_round_trip)

text \<open>
  Claim C3. For a \<open>(3 x n)\<close> vector series and a \<open>(3 x n)\<close> Euler-angle series, rotating
  body to earth (flag 0) succeeds, and rotating the result earth to body (flag 1) with the
  same angles returns the original series, exactly in real arithmetic.
\<close>

theorem rotate_round_trip:
  assumes "length IN = length ANGLES"
  shows "\<exists>OUT. rotate IN ANGLES 0 = Inr OUT \<and> rotate OUT ANGLES 1 = Inr IN"
  using assms by (simp add: rotate_def np_broadcast2_def map2_rotate_round_trip)

theorem rotate_round_trip_witness:
  "length [(1, 2, 3) :: vec3, (4, 5, 6)] = length [(0, 0, 0) :: vec3, (pi, 0, pi)]
   \<and> (\<exists>OUT. rotate [(1, 2, 3), (4, 5, 6)] [(0, 0, 0), (pi, 0, pi)] 0 = Inr OUT
         \<and> rotate OUT [(0, 0, 0), (pi, 0, pi)] 1 = Inr [(1, 2, 3), (4, 5, 6)])"
  using rotate_round_trip [of "[(1, 2, 3), (4, 5, 6)]" "[(0, 0, 0), (pi, 0, pi)]"] by simp


section \<open>Log-band averaging: \<open>log_avg\<close>\<close>

text \<open>
  \<open>np.diff(NDX) > 0\<close> at one index, where \<open>NDX = 1 + np.floor((lf - lf[0]) / dlf)\<close> and
  \<open>dlf = 1.000000001*(lf[len(f)-1] - lf[0]) / n\<close>. The arguments are the log-frequency
  span \<open>lf[len(f)-1] - lf[0]\<close>, the band count \<open>n\<close>, and \<open>lf[i] - lf[0]\<close>,
  \<open>lf[i+1] - lf[0]\<close>. The two divisions are float divisions, which do not raise:
  \<^item> for \<open>n = 0\<close>, \<open>dlf\<close> is infinite or not-a-number, every \<open>NDX\<close> is 1 or
    not-a-number, and no difference is positive;
  \<^item> for a span of zero, \<open>dlf\<close> is a zero with the sign of \<open>n\<close>, \<open>NDX\<close> is infinite
    with the sign of the quotient (not-a-number for 0/0), and a difference is positive
    only from minus infinity to plus infinity;
  \<^item> otherwise the quotients are finite.
\<close>

definition ndx_steps_up :: "real \<Rightarrow> int \<Rightarrow> real \<Rightarrow> real \<Rightarrow> bool" where
  "ndx_steps_up lspan n a b =
     (if n = 0 then False
      else if lspan = 0 then (if 0 < n then a < 0 \<and> 0 < b else 0 < a \<and> b < 0)
      else let dlf = 1.000000001 * lspan / of_int n
           in (1 + \<lfloor>b / dlf\<rfloor>) - (1 + \<lfloor>a / dlf\<rfloor>) > 0)"

text \<open>
  \<open>AA\<close>: the transitions \<open>np.where(np.diff(NDX) > 0)[0]\<close> followed by the final index
  \<open>len(f) - 1\<close>. \<open>np.log\<close> is the natural logarithm (frequencies are positive).
\<close>

definition band_ends :: "real list \<Rightarrow> int \<Rightarrow> nat list" where
  "band_ends f n =
     (let lf = map ln f;
          lspan = lf ! (length f - 1) - lf ! 0
      in filter (\<lambda>i. ndx_steps_up lspan n (lf ! i - lf ! 0) (lf ! Suc i - lf ! 0))
           [0..<length f - 1]
         @ [length f - 1])"

text \<open>\<open>np.concatenate([np.array([AA[0]+1]), np.diff(AA)])\<close>: the bins per band.\<close>

definition band_counts :: "nat list \<Rightarrow> int list" where
  "band_counts AA = (int (AA ! 0) + 1) # np_diff (map int AA)"

text \<open>
  \<open>log_avg\<close> returns \<open>(F, S, dF, Ns, Ne)\<close>. It raises \<open>IndexError\<close> at
  \<open>lf[len(f)-1]\<close> for an empty \<open>f\<close>, at \<open>Cs[AA]\<close> when \<open>s\<close> is shorter than \<open>f\<close>, and
  at \<open>f[9]\<close> when \<open>f\<close> has fewer than ten elements.
\<close>

definition log_avg ::
  "real list \<Rightarrow> real list \<Rightarrow> int
     \<Rightarrow> error + (real list \<times> real list \<times> real list \<times> nat list \<times> nat list)" where
  "log_avg f s n =
     (if length f = 0 then Inl IndexError
      else
        let AA = band_ends f n;
            Cs = np_cumsum s;
            Cf = np_cumsum f;
            counts = band_counts AA
        in case np_take Cf AA of Inl e \<Rightarrow> Inl e | Inr CfA \<Rightarrow>
           case np_take Cs AA of Inl e \<Rightarrow> Inl e | Inr CsA \<Rightarrow>
             let F = map2 (\<lambda>x c. x / of_int c) (CfA ! 0 # np_diff CfA) counts;
                 S = map2 (\<lambda>x c. x / of_int c) (CsA ! 0 # np_diff CsA) counts
             in if length f < 10 then Inl IndexError
                else
                  let dF = map (\<lambda>c. of_int c * (f ! 9 - f ! 8)) counts;
                      Ns = 0 # map (\<lambda>a. a + 1) (butlast AA);
                      Ne = AA
                  in Inr (F, S, dF, Ns, Ne))"

subsection \<open>The bands\<close>

lemma np_diff_telescope:
  fixes xs :: "int list"
  shows "xs \<noteq> [] \<Longrightarrow> hd xs + sum_list (np_diff xs) = last xs"
  by (induction xs rule: np_diff.induct) auto

lemma band_ends_nonempty: "band_ends f n \<noteq> []"
  by (simp add: band_ends_def Let_def)

lemma last_band_ends: "last (band_ends f n) = length f - 1"
  by (simp add: band_ends_def Let_def)

lemma sum_band_counts:
  assumes "AA \<noteq> []"
  shows "sum_list (band_counts AA) = int (last AA) + 1"
proof -
  have "hd (map int AA) + sum_list (np_diff (map int AA)) = last (map int AA)"
    using assms by (intro np_diff_telescope) simp
  moreover have "hd (map int AA) = int (AA ! 0)"
    using assms by (cases AA) simp_all
  moreover have "last (map int AA) = int (last AA)"
    using assms by (simp add: last_map)
  ultimately show ?thesis by (simp add: band_counts_def)
qed

lemma band_widths_tail:
  "map2 (\<lambda>e s. int e - int s + 1) as (map (\<lambda>a. a + 1) (butlast (a # as)))
     = np_diff (map int (a # as))"
  by (induction as arbitrary: a) simp_all

lemma band_widths_are_counts:
  assumes "AA \<noteq> []"
  shows "map2 (\<lambda>e s. int e - int s + 1) AA (0 # map (\<lambda>a. a + 1) (butlast AA)) = band_counts AA"
proof (cases AA)
  case Nil
  with assms show ?thesis by simp
next
  case (Cons a as)
  show ?thesis
    unfolding Cons band_counts_def using band_widths_tail [of as a] by simp
qed

lemma log_avg_bands:
  assumes "log_avg f s n = Inr (F, S, dF, Ns, Ne)"
  shows "Ne = band_ends f n" "Ns = 0 # map (\<lambda>a. a + 1) (butlast (band_ends f n))"
    "dF = map (\<lambda>c. of_int c * (f ! 9 - f ! 8)) (band_counts (band_ends f n))"
    "10 \<le> length f"
  using assms
  by (auto simp: log_avg_def Let_def split: if_splits sum.splits)

lemma band_ends_sorted: "sorted_wrt (<) (band_ends f n)"
  by (auto simp: band_ends_def Let_def sorted_wrt_append intro: sorted_wrt_filter
      simp flip: strict_sorted_iff)

lemma uniform_grid_diff:
  fixes f :: "real list"
  assumes "\<forall>i. Suc i < length f \<longrightarrow> f ! Suc i - f ! i = d" "i \<le> j" "j < length f"
  shows "f ! j - f ! i = real (j - i) * d"
  using assms(2,3)
proof (induction j)
  case 0 then show ?case by simp
next
  case (Suc j)
  show ?case
  proof (cases "i = Suc j")
    case True then show ?thesis by simp
  next
    case False
    with Suc have "f ! j - f ! i = real (j - i) * d" "i \<le> j" by simp_all
    moreover have "f ! Suc j - f ! j = d" using assms(1) Suc.prems by simp
    ultimately show ?thesis by (simp add: Suc_diff_le algebra_simps)
  qed
qed

lemma band_starts_nth:
  assumes "k < length AA"
  shows "(0 # map (\<lambda>a. a + 1) (butlast AA)) ! k = (if k = 0 then 0 else AA ! (k - 1) + 1)"
proof (cases k)
  case 0 then show ?thesis by simp
next
  case (Suc j)
  then have "j < length (butlast AA)" using assms by simp
  then show ?thesis using Suc by (simp add: nth_butlast)
qed

lemma band_start_le_end:
  assumes "k < length (band_ends f n)"
  shows "(0 # map (\<lambda>a. a + 1) (butlast (band_ends f n))) ! k \<le> band_ends f n ! k"
proof (cases k)
  case 0 then show ?thesis by simp
next
  case (Suc j)
  have "band_ends f n ! j < band_ends f n ! Suc j"
    using band_ends_sorted [of f n] assms Suc by (simp add: sorted_wrt_nth_less)
  then show ?thesis using assms Suc by (simp add: nth_butlast)
qed

lemma band_ends_bound:
  assumes "f \<noteq> []" "k < length (band_ends f n)"
  shows "band_ends f n ! k < length f"
proof -
  have "\<forall>i \<in> set (band_ends f n). i < length f"
    using assms(1) by (auto simp: band_ends_def Let_def)
  then show ?thesis using assms(2) by simp
qed

lemma band_counts_nth:
  assumes "AA \<noteq> []" "k < length AA"
  shows "band_counts AA ! k = int (AA ! k) - int ((0 # map (\<lambda>a. a + 1) (butlast AA)) ! k) + 1"
proof -
  have "band_counts AA ! k
      = map2 (\<lambda>e s. int e - int s + 1) AA (0 # map (\<lambda>a. a + 1) (butlast AA)) ! k"
    using band_widths_are_counts [OF assms(1)] by simp
  also have "\<dots> = int (AA ! k) - int ((0 # map (\<lambda>a. a + 1) (butlast AA)) ! k) + 1"
    using assms(2) by (subst nth_map) (simp_all add: nth_zip)
  finally show ?thesis .
qed

lemma length_np_diff: "length (np_diff xs) = length xs - 1"
  by (induction xs rule: np_diff.induct) simp_all

lemma length_band_counts: "AA \<noteq> [] \<Longrightarrow> length (band_counts AA) = length AA"
  by (cases AA) (simp_all add: band_counts_def length_np_diff)

lemma log_avg_total:
  assumes "10 \<le> length f" "length f \<le> length s"
  shows "\<exists>r. log_avg f s n = Inr r"
proof -
  have "\<forall>i \<in> set (band_ends f n). i < length f"
    using assms by (auto simp: band_ends_def Let_def)
  then have "\<forall>i \<in> set (band_ends f n). i < length s"
    using assms by fastforce
  with assms \<open>\<forall>i \<in> set (band_ends f n). i < length f\<close> show ?thesis
    by (auto simp: log_avg_def Let_def np_take_def np_cumsum_def)
qed

text \<open>
  Claim C7. Whenever \<open>log_avg\<close> returns (it does for every band count \<open>n\<close> when the
  frequency array has at least ten entries and the spectrum is at least as long), the
  returned bands partition the input bins: the per-band sample counts \<open>Ne - Ns + 1\<close> add
  up to the input length, the first band starts at bin 0, each band starts right after the
  previous one ends, no band is empty, and the last band ends at the last bin.
\<close>

theorem log_avg_partition:
  "(10 \<le> length f \<and> length f \<le> length s \<longrightarrow> (\<exists>r. log_avg f s n = Inr r))
   \<and> (\<forall>F S dF Ns Ne. log_avg f s n = Inr (F, S, dF, Ns, Ne) \<longrightarrow>
        sum_list (map2 (\<lambda>e s. int e - int s + 1) Ne Ns) = int (length f)
        \<and> length Ns = length Ne \<and> Ns ! 0 = 0 \<and> last Ne + 1 = length f
        \<and> (\<forall>k. Suc k < length Ne \<longrightarrow> Ns ! Suc k = Ne ! k + 1)
        \<and> (\<forall>k < length Ne. Ns ! k \<le> Ne ! k))"
proof (intro conjI allI impI)
  show "\<exists>r. log_avg f s n = Inr r" if "10 \<le> length f \<and> length f \<le> length s"
    using that log_avg_total by blast
next
  fix F S dF Ns Ne
  assume r: "log_avg f s n = Inr (F, S, dF, Ns, Ne)"
  note b = log_avg_bands [OF r]
  have ne: "band_ends f n \<noteq> []" by (rule band_ends_nonempty)
  have "sum_list (map2 (\<lambda>e s. int e - int s + 1) Ne Ns) = sum_list (band_counts (band_ends f n))"
    unfolding b(1,2) using band_widths_are_counts [OF ne] by simp
  also have "\<dots> = int (length f - 1) + 1"
    using sum_band_counts [OF ne] by (simp add: last_band_ends)
  also have "\<dots> = int (length f)" using b(4) by simp
  finally show "sum_list (map2 (\<lambda>e s. int e - int s + 1) Ne Ns) = int (length f)" .
  show "length Ns = length Ne" using ne by (simp add: b(1,2))
  show "Ns ! 0 = 0" by (simp add: b(2))
  show "last Ne + 1 = length f" using b(4) by (simp add: b(1) last_band_ends)
  show "Ns ! Suc k = Ne ! k + 1" if "Suc k < length Ne" for k
    using that band_starts_nth [of "Suc k" "band_ends f n"] by (simp add: b(1,2))
  show "Ns ! k \<le> Ne ! k" if "k < length Ne" for k
    using that band_start_le_end [of k f n] by (simp add: b(1,2))
qed

text \<open>
  Claim C9. \<open>log_avg\<close> needs at least ten frequency bins: with fewer it raises
  \<open>IndexError\<close>. When it returns, every bandwidth is the band's bin count times the one
  fixed difference \<open>f[9] - f[8]\<close>; on a uniformly spaced grid (spacing \<open>d\<close>) that is the
  width the band covers, \<open>f[Ne] - f[Ns] + d\<close>.
\<close>

theorem log_avg_needs_ten_bins:
  fixes f s :: "real list" and d :: real
  shows
  "(length f < 10 \<longrightarrow> log_avg f s n = Inl IndexError)
   \<and> (\<forall>F S dF Ns Ne. log_avg f s n = Inr (F, S, dF, Ns, Ne) \<longrightarrow>
        length dF = length Ne \<and> length Ns = length Ne \<and>
        (\<forall>k < length Ne.
           dF ! k = real_of_int (int (Ne ! k) - int (Ns ! k) + 1) * (f ! 9 - f ! 8) \<and>
           ((\<forall>i. Suc i < length f \<longrightarrow> f ! Suc i - f ! i = d) \<longrightarrow>
              dF ! k = f ! (Ne ! k) - f ! (Ns ! k) + d)))"
proof (intro conjI allI impI)
  assume "length f < 10"
  then show "log_avg f s n = Inl IndexError"
    by (auto simp: log_avg_def Let_def np_take_def split: sum.splits)
next
  fix F S dF Ns Ne
  assume r: "log_avg f s n = Inr (F, S, dF, Ns, Ne)"
  note b = log_avg_bands [OF r]
  let ?AA = "band_ends f n"
  have ne: "?AA \<noteq> []" by (rule band_ends_nonempty)
  show len_dF: "length dF = length Ne"
    by (simp add: b(1,3) length_band_counts [OF ne])
  show len_Ns: "length Ns = length Ne"
    using ne by (simp add: b(1,2))
  fix k assume k: "k < length Ne"
  then have k': "k < length ?AA" by (simp add: b(1))
  have cnt: "band_counts ?AA ! k = int (Ne ! k) - int (Ns ! k) + 1"
    using band_counts_nth [OF ne k'] by (simp add: b(1,2))
  show dFk: "dF ! k = real_of_int (int (Ne ! k) - int (Ns ! k) + 1) * (f ! 9 - f ! 8)"
    using k' cnt by (simp add: b(3) length_band_counts [OF ne])
  assume uni: "\<forall>i. Suc i < length f \<longrightarrow> f ! Suc i - f ! i = d"
  have le: "Ns ! k \<le> Ne ! k"
    using band_start_le_end [OF k'] by (simp add: b(1,2))
  have "f \<noteq> []" using b(4) by auto
  then have lt: "Ne ! k < length f"
    using band_ends_bound [OF _ k'] by (simp add: b(1))
  have "f ! 9 - f ! 8 = d" using uni b(4) by (simp add: eval_nat_numeral)
  moreover have "f ! (Ne ! k) - f ! (Ns ! k) = real (Ne ! k - Ns ! k) * d"
    by (rule uniform_grid_diff [OF uni le lt])
  ultimately show "dF ! k = f ! (Ne ! k) - f ! (Ns ! k) + d"
    using le by (simp add: dFk algebra_simps of_nat_diff)
qed



subsection \<open>A ten-bin grid in two bands\<close>

text \<open>
  The frequencies 1 to 10 in \<open>n = 2\<close> bands: \<open>NDX\<close> is 1 for the frequencies 1, 2, 3 and 2
  for 4 to 10, so the bands are the bins 0 to 2 and 3 to 9.
\<close>

lemma floor_div_unique:
  fixes a d :: real
  assumes "0 < d" "of_int k * d \<le> a" "a < (of_int k + 1) * d"
  shows "\<lfloor>a / d\<rfloor> = k"
  using assms by (simp add: floor_eq_iff field_simps)

lemma ndx_low:
  fixes a :: real
  assumes "0 \<le> a" "a \<le> ln 3"
  shows "\<lfloor>a / (1.000000001 * ln 10 / 2)\<rfloor> = 0"
proof -
  define L :: real where "L = ln 10"
  have Lpos: "0 < L" by (simp add: L_def)
  have "2 * ln (3::real) = ln 9" using ln_realpow [of "3::real" 2] by simp
  also have "\<dots> < L" unfolding L_def by (subst ln_less_cancel_iff) simp_all
  finally have "2 * a < L" using assms(2) by linarith
  with Lpos have "a < (of_int 0 + 1) * (1.000000001 * L / 2)" by simp
  moreover have "0 < 1.000000001 * L / 2" using Lpos by simp
  ultimately have "\<lfloor>a / (1.000000001 * L / 2)\<rfloor> = 0"
    using assms(1) by (intro floor_div_unique) simp_all
  then show ?thesis by (simp only: L_def)
qed

lemma ndx_high:
  fixes a :: real
  assumes "ln 4 \<le> a" "a \<le> ln 10"
  shows "\<lfloor>a / (1.000000001 * ln 10 / 2)\<rfloor> = 1"
proof -
  define L :: real where "L = ln 10"
  have Lpos: "0 < L" by (simp add: L_def)
  have "6 * L = ln 1000000" unfolding L_def using ln_realpow [of "10::real" 6] by simp
  also have "\<dots> \<le> ln (1048576 :: real)" by (subst ln_le_cancel_iff) simp_all
  also have "\<dots> = 10 * ln (4 :: real)" using ln_realpow [of "4::real" 10] by simp
  also have "\<dots> \<le> 10 * a" using assms by simp
  finally have "6 * L \<le> 10 * a" .
  with Lpos have lo: "of_int 1 * (1.000000001 * L / 2) \<le> a" by simp
  have "a \<le> L" using assms(2) by (simp add: L_def)
  with Lpos have hi: "a < (of_int 1 + 1) * (1.000000001 * L / 2)" by simp
  have "0 < 1.000000001 * L / 2" using Lpos by simp
  then have "\<lfloor>a / (1.000000001 * L / 2)\<rfloor> = 1"
    using lo hi by (rule floor_div_unique)
  then show ?thesis by (simp only: L_def)
qed

lemma ndx_steps_up_10_2:
  "ndx_steps_up (ln 10) 2 a b
     = (\<lfloor>b / (1.000000001 * ln 10 / 2)\<rfloor> - \<lfloor>a / (1.000000001 * ln 10 / 2)\<rfloor> > 0)"
  by (simp add: ndx_steps_up_def Let_def)

lemma steps_low_low:
  "0 \<le> a \<Longrightarrow> a \<le> ln 3 \<Longrightarrow> 0 \<le> b \<Longrightarrow> b \<le> ln 3 \<Longrightarrow> \<not> ndx_steps_up (ln 10) 2 a b"
  unfolding ndx_steps_up_10_2 by (simp only: ndx_low)

lemma steps_low_high:
  "0 \<le> a \<Longrightarrow> a \<le> ln 3 \<Longrightarrow> ln 4 \<le> b \<Longrightarrow> b \<le> ln 10 \<Longrightarrow> ndx_steps_up (ln 10) 2 a b"
  unfolding ndx_steps_up_10_2 by (simp only: ndx_low ndx_high)

lemma steps_high_high:
  "ln 4 \<le> a \<Longrightarrow> a \<le> ln 10 \<Longrightarrow> ln 4 \<le> b \<Longrightarrow> b \<le> ln 10 \<Longrightarrow> \<not> ndx_steps_up (ln 10) 2 a b"
  unfolding ndx_steps_up_10_2 by (simp only: ndx_high)

lemma band_ends_ten_bins: "band_ends [1, 2, 3, 4, 5, 6, 7, 8, 9, 10] 2 = [2, 9]"
proof -
  have "[0..<9] = [0, 1, 2, 3, 4, 5, 6, 7, 8]" by (simp add: upt_rec)
  then show ?thesis
    by (simp add: band_ends_def Let_def Let_def steps_low_low steps_low_high steps_high_high)
qed

lemma log_avg_ten_bins:
  "log_avg [1, 2, 3, 4, 5, 6, 7, 8, 9, 10] [3, 3, 3, 7, 7, 7, 7, 7, 7, 7] 2 = Inr ([2, 7], [3, 7], [3, 7], [0, 3], [2, 9])"
  by (simp add: log_avg_def band_ends_ten_bins Let_def band_counts_def np_take_def)
    (simp add: Let_def Let_def np_cumsum_def upt_rec)

theorem log_avg_partition_witness:
  "(10 \<le> length [1, 2, 3, 4, 5, 6, 7, 8, 9, 10 :: real]
      \<and> length [1, 2, 3, 4, 5, 6, 7, 8, 9, 10 :: real] \<le> length [3, 3, 3, 7, 7, 7, 7, 7, 7, 7 :: real])
   \<and> log_avg [1, 2, 3, 4, 5, 6, 7, 8, 9, 10] [3, 3, 3, 7, 7, 7, 7, 7, 7, 7] 2
       = Inr ([2, 7], [3, 7], [3, 7], [0, 3], [2, 9])
   \<and> sum_list (map2 (\<lambda>e s. int e - int s + 1) [2, 9] [0, 3])
       = int (length [1, 2, 3, 4, 5, 6, 7, 8, 9, 10 :: real])"
  using log_avg_partition [of "[1, 2, 3, 4, 5, 6, 7, 8, 9, 10]" "[3, 3, 3, 7, 7, 7, 7, 7, 7, 7]" 2]
    log_avg_ten_bins
  by simp

theorem log_avg_needs_ten_bins_witness:
  "length [1, 2, 3 :: real] < 10 \<and> log_avg [1, 2, 3] [5, 5, 5] 2 = Inl IndexError
   \<and> log_avg [1, 2, 3, 4, 5, 6, 7, 8, 9, 10] [3, 3, 3, 7, 7, 7, 7, 7, 7, 7] 2
       = Inr ([2, 7], [3, 7], [3, 7], [0, 3], [2, 9])
   \<and> [3, 7 :: real] ! 1 = real_of_int (int ([2, 9] ! 1) - int ([0, 3] ! 1) + 1)
         * ([1, 2, 3, 4, 5, 6, 7, 8, 9, 10] ! 9 - [1, 2, 3, 4, 5, 6, 7, 8, 9, 10] ! 8)
   \<and> [3, 7 :: real] ! 1 = [1, 2, 3, 4, 5, 6, 7, 8, 9, 10] ! ([2, 9] ! 1)
         - [1, 2, 3, 4, 5, 6, 7, 8, 9, 10] ! ([0, 3] ! 1) + 1"
  using log_avg_needs_ten_bins [of "[1, 2, 3]" "[5, 5, 5]" 2 1]
    log_avg_needs_ten_bins [of "[1, 2, 3, 4, 5, 6, 7, 8, 9, 10]" "[3, 3, 3, 7, 7, 7, 7, 7, 7, 7]" 2 1]
    log_avg_ten_bins
  by simp


section \<open>Directional spectra: \<open>arctan3\<close> and \<open>wave_spectra\<close>\<close>

text \<open>
  Results that can be not-a-number or infinite are \<open>float64\<close> values: a finite real,
  plus infinity, or not-a-number.
\<close>

datatype float64 = Fin real | PInf | NaN

text \<open>
  \<open>np.arctan2(y, x)\<close>, the angle of the point \<open>(x, y)\<close> in \<open>(-pi, pi]\<close>.
\<close>

definition np_arctan2 :: "real \<Rightarrow> real \<Rightarrow> real" where
  "np_arctan2 y x =
     (if 0 < x then arctan (y / x)
      else if x < 0 then (if 0 \<le> y then arctan (y / x) + pi else arctan (y / x) - pi)
      else if 0 < y then pi / 2
      else if y < 0 then - (pi / 2)
      else 0)"

text \<open>
  \<open>arctan3\<close> at one element: \<open>theta[index] = theta[index] + 2*np.pi\<close> where
  \<open>theta < 0\<close>.
\<close>

definition arctan3_elem :: "real \<Rightarrow> real \<Rightarrow> real" where
  "arctan3_elem y x = (let theta = np_arctan2 y x in if theta < 0 then theta + 2 * pi else theta)"

definition arctan3 :: "real list \<Rightarrow> real list \<Rightarrow> error + real list" where
  "arctan3 y x = np_broadcast2 arctan3_elem y x"

text \<open>
  \<open>scipy.fft.fft\<close> of a real series: the discrete Fourier transform
  \<open>X[k] = sum_j x[j] * exp(-2*pi*i*j*k/N)\<close>, \<open>ValueError\<close> for an empty series.
\<close>

definition fft :: "real list \<Rightarrow> error + complex list" where
  "fft x =
     (if x = [] then Inl ValueError
      else Inr (map (\<lambda>k. \<Sum>j<length x.
                  of_real (x ! j) * cis (- 2 * pi * real j * real k / real (length x)))
             [0..<length x]))"

text \<open>\<open>xs[a:b]\<close> for \<open>0 \<le> a \<le> b\<close>, clipped to the array.\<close>

definition np_slice :: "'a list \<Rightarrow> nat \<Rightarrow> nat \<Rightarrow> 'a list" where
  "np_slice xs a b = take (b - a) (drop a xs)"

text \<open>Sequencing of steps that can raise.\<close>

definition err_bind :: "error + 'a \<Rightarrow> ('a \<Rightarrow> error + 'b) \<Rightarrow> error + 'b" where
  "err_bind m k = (case m of Inl e \<Rightarrow> Inl e | Inr x \<Rightarrow> k x)"

text \<open>
  The spread at one band, \<open>57.296 * ((1 - R2) / 2)**0.5\<close> with
  \<open>R2 = ((Cuu - Cvv)**2 + 4*Cuv**2)**0.5 / (Cuu + Cvv)\<close>. The division and the power
  are float operations: \<open>0/0\<close> is not-a-number, a non-zero numerator over zero is
  infinite (and the power of the resulting infinity is plus infinity), and the power of
  a negative finite number is not-a-number.
\<close>

definition spread_elem :: "real \<Rightarrow> real \<Rightarrow> real \<Rightarrow> float64" where
  "spread_elem Cuu Cvv Cuv =
     (let num = sqrt ((Cuu - Cvv)\<^sup>2 + 4 * Cuv\<^sup>2); den = Cuu + Cvv
      in if den = 0 then (if num = 0 then NaN else PInf)
         else let R2 = num / den; x = (1 - R2) / 2
              in if x < 0 then NaN else Fin (57.296 * sqrt x))"

text \<open>\<open>xs[ad] = np.nan\<close> with \<open>ad = np.where(p_spectra < min_spec)[0]\<close>.\<close>

definition mask_nan :: "real list \<Rightarrow> real \<Rightarrow> float64 list \<Rightarrow> float64 list" where
  "mask_nan p_spectra min_spec xs =
     map (\<lambda>i. if p_spectra ! i < min_spec then NaN else xs ! i) [0..<length xs]"

text \<open>
  The scaled cross-spectrum \<open>np.real((a_fft*np.conj(b_fft)) * 2 / (n**2) / f[0])\<close>,
  cut to \<open>[1:int((n/2)+1)]\<close>, and the scaled power spectrum
  \<open>(abs(a_fft[1:int((n/2)+1)]**2)*2)/(n**2)/f[0]\<close>.
\<close>

definition cross_power :: "complex list \<Rightarrow> complex list \<Rightarrow> nat \<Rightarrow> real \<Rightarrow> error + real list" where
  "cross_power a_fft b_fft n f0 =
     err_bind (np_broadcast2 (\<lambda>a b. Re (a * cnj b * 2 / of_nat (n\<^sup>2) / of_real f0)) a_fft b_fft)
       (\<lambda>ab. Inr (np_slice ab 1 (n div 2 + 1)))"

definition auto_power :: "complex list \<Rightarrow> nat \<Rightarrow> real \<Rightarrow> real list" where
  "auto_power a_fft n f0 =
     map (\<lambda>z. (cmod (z\<^sup>2) * 2) / real (n\<^sup>2) / f0) (np_slice a_fft 1 (n div 2 + 1))"

text \<open>The result \<open>(u_spectra, p_spectra, Tdir, Ts, F, dF, dof)\<close>.\<close>

type_synonym spectra =
  "real list \<times> real list \<times> float64 list \<times> float64 list \<times> real list \<times> real list \<times> int list"

text \<open>
  The lines of \<open>wave_spectra\<close> after the band averaging: the low-frequency cut-off, the
  spectra, the direction and the spread, and the mask below the minimum spectral level.
\<close>

definition wave_spectra_bands ::
  "real list \<Rightarrow> real list \<Rightarrow> int list \<Rightarrow> real list \<Rightarrow> real list \<Rightarrow> real list \<Rightarrow> real list
     \<Rightarrow> real list \<Rightarrow> real list \<Rightarrow> real \<Rightarrow> real \<Rightarrow> error + spectra" where
  "wave_spectra_bands F dF dof Cuu Cvv Cpp Cpu Cpv Cuv lf_cutoff min_spec =
     (let aa = filter (\<lambda>i. F ! i > lf_cutoff) [0..<length F];
          F = map (\<lambda>i. F ! i) aa;
          dF = map (\<lambda>i. dF ! i) aa;
          dof = map (\<lambda>i. dof ! i) aa;
          Cuu = map (\<lambda>i. Cuu ! i) aa;
          Cvv = map (\<lambda>i. Cvv ! i) aa;
          Cpp = map (\<lambda>i. Cpp ! i) aa;
          Cpu = map (\<lambda>i. Cpu ! i) aa;
          Cpv = map (\<lambda>i. Cpv ! i) aa;
          Cuv = map (\<lambda>i. Cuv ! i) aa;
          u_spectra = map2 (+) Cuu Cvv;
          p_spectra = Cpp
      in err_bind (arctan3 Cpu Cpv) (\<lambda>theta.
         let Tdir = map (\<lambda>t. Fin (57.296 * t)) theta;
             Ts = map (\<lambda>i. spread_elem (Cuu ! i) (Cvv ! i) (Cuv ! i)) [0..<length aa];
             Tdir = mask_nan p_spectra min_spec Tdir;
             Ts = mask_nan p_spectra min_spec Ts
         in Inr (u_spectra, p_spectra, Tdir, Ts, F, dF, dof)))"

text \<open>
  The body of \<open>wave_spectra\<close> from \<open>Dt = n*dt\<close> on, for the series as they stand after
  the odd-length adjustment. The frequencies \<open>np.arange(1, (n+1)/2) / Dt\<close> are
  \<open>1/Dt, ..., (n/2)/Dt\<close> for even \<open>n\<close>; the sample interval \<open>dt\<close> is positive.
\<close>

definition wave_spectra_body ::
  "real list \<Rightarrow> real list \<Rightarrow> real list \<Rightarrow> real \<Rightarrow> int \<Rightarrow> real \<Rightarrow> real \<Rightarrow> error + spectra" where
  "wave_spectra_body u v p dt nF lf_cutoff min_spec =
     (let n = length p;
          Dt = real n * dt;
          f = map (\<lambda>k. real k / Dt) [1..<n div 2 + 1]
      in err_bind (fft u) (\<lambda>u_fft.
         err_bind (fft v) (\<lambda>v_fft.
         err_bind (fft p) (\<lambda>p_fft.
           let u_power = auto_power u_fft n (f ! 0);
               v_power = auto_power v_fft n (f ! 0);
               p_power = auto_power p_fft n (f ! 0)
           in err_bind (cross_power p_fft u_fft n (f ! 0)) (\<lambda>pu_power.
              err_bind (cross_power p_fft v_fft n (f ! 0)) (\<lambda>pv_power.
              err_bind (cross_power u_fft v_fft n (f ! 0)) (\<lambda>uv_power.
              err_bind (log_avg f u_power nF) (\<lambda>(F, Cuu, _, _, _).
              err_bind (log_avg f v_power nF) (\<lambda>(F, Cvv, _, _, _).
              err_bind (log_avg f p_power nF) (\<lambda>(F, Cpp, _, _, _).
              err_bind (log_avg f pu_power nF) (\<lambda>(F, Cpu, _, _, _).
              err_bind (log_avg f pv_power nF) (\<lambda>(F, Cpv, dF, Ns, Ne).
              err_bind (log_avg f uv_power nF) (\<lambda>(F, Cuv, _, _, _).
                let dof = map2 (\<lambda>e s. 2 * (int e - int s + 1)) Ne Ns
                in wave_spectra_bands F dF dof Cuu Cvv Cpp Cpu Cpv Cuv lf_cutoff min_spec)))))))))))))"

text \<open>
  \<open>wave_spectra(u, v, p, dt, nF, hp, hv, params)\<close>: an odd-length input loses its last
  sample (\<open>u[:-1]\<close>, \<open>v[:-1]\<close>, \<open>p[:-1]\<close>) before anything is computed.
\<close>

definition wave_spectra ::
  "real list \<Rightarrow> real list \<Rightarrow> real list \<Rightarrow> real \<Rightarrow> int \<Rightarrow> real \<Rightarrow> real \<Rightarrow> real list
     \<Rightarrow> error + spectra" where
  "wave_spectra u v p dt nF hp hv params =
     (if length params < 4 then Inl IndexError
      else
        let lf_cutoff = params ! 0; max_fac = params ! 1; min_spec = params ! 2;
            n_dir = params ! 3
        in if length p mod 2 = 1
           then wave_spectra_body (butlast u) (butlast v) (butlast p) dt nF lf_cutoff min_spec
           else wave_spectra_body u v p dt nF lf_cutoff min_spec)"


subsection \<open>An impulse in all three series\<close>

text \<open>
  The transform of an impulse at the first sample is constant, so the spectra of
  impulses are flat. Pressure and north velocity of 100 and east velocity of -0.0001 at
  the first of 20 samples, 0.05 s apart, give cross-spectra \<open>Cpu = -1 / 20000\<close> and
  \<open>Cpv = 50\<close> in both of the \<open>nF = 2\<close> bands.
\<close>

lemma fft_impulse:
  "fft (a # replicate m 0) = Inr (replicate (Suc m) (of_real a))"
proof -
  have "(\<Sum>j<Suc m. of_real ((a # replicate m 0) ! j)
            * cis (- 2 * pi * real j * real k / real (Suc m))) = (of_real a :: complex)" for k
  proof -
    have "(\<Sum>j<Suc m. of_real ((a # replicate m 0) ! j)
            * cis (- 2 * pi * real j * real k / real (Suc m)))
        = (\<Sum>j<Suc m. if j = 0 then (of_real a :: complex) else 0)"
      by (rule sum.cong) (auto simp: nth_Cons')
    also have "\<dots> = of_real a" by simp
    finally show ?thesis .
  qed
  then show ?thesis
    by (simp add: fft_def map_replicate_const del: sum.lessThan_Suc of_real_mult)
qed

lemma np_slice_replicate: "np_slice (replicate n c) a b = replicate (min (b - a) (n - a)) c"
  by (simp add: np_slice_def)

lemma np_cumsum_replicate_ten:
  "np_cumsum (replicate 10 c) = [c, 2 * c, 3 * c, 4 * c, 5 * c, 6 * c, 7 * c, 8 * c, 9 * c, 10 * c]"
  by (simp add: np_cumsum_def eval_nat_numeral upt_rec)

lemma log_avg_ten_bins_const:
  "log_avg [1, 2, 3, 4, 5, 6, 7, 8, 9, 10] (replicate 10 c) 2
     = Inr ([2, 7], [c, c], [3, 7], [0, 3], [2, 9])"
  by (simp add: log_avg_def band_ends_ten_bins Let_def band_counts_def np_take_def
      np_cumsum_replicate_ten)
    (simp add: np_cumsum_def upt_rec)


lemma spread_elem_unidirectional:
  "spread_elem (1 / 20000000000) 50 (- (1 / 20000)) = Fin 0"
proof -
  have "sqrt ((1 / 20000000000 - 50)\<^sup>2 + 4 * (- (1 / 20000))\<^sup>2) = 50 + 1 / 20000000000"
    by (rule real_sqrt_unique) (simp_all add: power2_eq_square)
  then show ?thesis
    by (simp add: spread_elem_def Let_def)
qed

lemma wave_spectra_impulse:
  "wave_spectra (- (1 / 10000) # replicate 19 0) (100 # replicate 19 0) (100 # replicate 19 0)
       (1 / 20) 2 0 0 [0.03, 200, 0.1, 0]
     = Inr ([50 + 1 / 20000000000, 50 + 1 / 20000000000], [50, 50],
            [Fin (57.296 * (2 * pi - arctan (1 / 1000000))),
             Fin (57.296 * (2 * pi - arctan (1 / 1000000)))],
            [Fin 0, Fin 0], [2, 7], [3, 7], [6, 14])"
proof -
  have f: "map (\<lambda>k. real k / (real (length (100 # replicate 19 (0::real))) * (1 / 20))) [1..<length (100 # replicate 19 (0::real)) div 2 + 1]
      = [1, 2, 3, 4, 5, 6, 7, 8, 9, 10]"
    by (simp add: upt_rec)
  have theta: "arctan3_elem (- (1 / 20000)) 50 = 2 * pi - arctan (1 / 1000000)"
    by (simp add: arctan3_elem_def np_arctan2_def Let_def arctan_minus)
  show ?thesis
    unfolding wave_spectra_def wave_spectra_body_def wave_spectra_bands_def Let_def f
    apply (simp add: err_bind_def fft_impulse auto_power_def cross_power_def np_broadcast2_def
        np_slice_replicate log_avg_ten_bins_const arctan3_def theta mask_nan_def
        spread_elem_unidirectional norm_power power_divide)
    done
qed

subsection \<open>Bounds on \<open>pi\<close> and on the arctangent\<close>

lemma arctan_le_self_nonneg:
  fixes x :: real
  assumes "0 \<le> x"
  shows "arctan x \<le> x"
proof -
  have "(\<lambda>t. t - arctan t) 0 \<le> (\<lambda>t. t - arctan t) x"
  proof (rule DERIV_nonneg_imp_nondecreasing [OF assms])
    fix t :: real
    assume "0 \<le> t" "t \<le> x"
    have "((\<lambda>t. t - arctan t) has_real_derivative (1 - inverse (1 + t\<^sup>2))) (at t)"
      by (auto intro!: derivative_eq_intros)
    moreover have "0 \<le> 1 - inverse (1 + t\<^sup>2)"
      by (simp add: inverse_le_1_iff)
    ultimately show "\<exists>y. ((\<lambda>t. t - arctan t) has_real_derivative y) (at t) \<and> 0 \<le> y"
      by blast
  qed
  then show ?thesis by simp
qed

lemma cos_lower_12:
  fixes x :: real
  shows "(\<Sum>m<12. cos_coeff m * x ^ m) - \<bar>x\<bar> ^ 12 / fact 12 \<le> cos x"
proof -
  obtain t where t: "cos x = (\<Sum>m<12. cos_coeff m * x ^ m) + (cos (t + 1/2 * real 12 * pi) / fact 12) * x ^ 12"
    using Maclaurin_cos_expansion [of x 12] by blast
  have "\<bar>(cos (t + 1/2 * real 12 * pi) / fact 12) * x ^ 12\<bar> \<le> \<bar>x\<bar> ^ 12 / fact 12"
  proof -
    have "\<bar>cos (t + 1/2 * real 12 * pi)\<bar> * \<bar>x\<bar> ^ 12 \<le> 1 * \<bar>x\<bar> ^ 12"
      by (rule mult_right_mono) (simp_all add: abs_cos_le_one)
    then show ?thesis
      by (simp add: abs_mult power_abs divide_right_mono field_simps)
  qed
  then show ?thesis using t by linarith
qed

lemma cos_partial_12:
  fixes x :: real
  shows "(\<Sum>m<12. cos_coeff m * x ^ m)
       = 1 - x^2 / 2 + x^4 / 24 - x^6 / 720 + x^8 / 40320 - x^10 / 3628800"
  by (simp add: lessThan_nat_numeral cos_coeff_def fact_numeral)

lemma pi_lower: "3141582 / 1000000 < pi"
proof -
  let ?x = "1570791 / 1000000 :: real"
  have "0 < (\<Sum>m<12. cos_coeff m * ?x ^ m) - \<bar>?x\<bar> ^ 12 / fact 12"
    unfolding cos_partial_12 by (simp add: fact_numeral power_divide)
  then have pos: "0 < cos ?x" using cos_lower_12 [of ?x] by linarith
  have "?x < pi / 2"
  proof (rule ccontr)
    assume "\<not> ?x < pi / 2"
    then have "pi / 2 \<le> ?x" by simp
    moreover have "?x \<le> pi" using pi_ge_two by linarith
    ultimately have "cos ?x \<le> cos (pi / 2)"
      by (intro cos_monotone_0_pi_le) simp_all
    then show False using pos by simp
  qed
  then show ?thesis by simp
qed


lemma cos_upper_12:
  fixes x :: real
  shows "cos x \<le> (\<Sum>m<12. cos_coeff m * x ^ m) + \<bar>x\<bar> ^ 12 / fact 12"
proof -
  obtain t where t: "cos x = (\<Sum>m<12. cos_coeff m * x ^ m) + (cos (t + 1/2 * real 12 * pi) / fact 12) * x ^ 12"
    using Maclaurin_cos_expansion [of x 12] by blast
  have "\<bar>(cos (t + 1/2 * real 12 * pi) / fact 12) * x ^ 12\<bar> \<le> \<bar>x\<bar> ^ 12 / fact 12"
  proof -
    have "\<bar>cos (t + 1/2 * real 12 * pi)\<bar> * \<bar>x\<bar> ^ 12 \<le> 1 * \<bar>x\<bar> ^ 12"
      by (rule mult_right_mono) simp_all
    then show ?thesis
      by (simp add: abs_mult power_abs divide_right_mono field_simps)
  qed
  then show ?thesis using t by linarith
qed

lemma pi_upper: "pi < 3141598 / 1000000"
proof -
  let ?x = "1570799 / 1000000 :: real"
  have "(\<Sum>m<12. cos_coeff m * ?x ^ m) + \<bar>?x\<bar> ^ 12 / fact 12 < 0"
    unfolding cos_partial_12 by (simp add: fact_numeral power_divide)
  then have neg: "cos ?x < 0" using cos_upper_12 [of ?x] by linarith
  have "pi / 2 < ?x"
  proof (rule ccontr)
    assume "\<not> pi / 2 < ?x"
    then have "?x \<le> pi / 2" by simp
    then have "0 \<le> cos ?x" by (intro cos_ge_zero) simp_all
    then show False using neg by simp
  qed
  then show ?thesis by simp
qed

subsection \<open>The range of the direction\<close>

lemma np_arctan2_range: "- pi < np_arctan2 y x \<and> np_arctan2 y x \<le> pi"
proof -
  have b: "- (pi / 2) < arctan (y / x)" "arctan (y / x) < pi / 2"
    using arctan_bounded [of "y / x"] by simp_all
  have neg: "arctan (y / x) \<le> 0" if "x < 0" "0 \<le> y"
    using that by (simp add: divide_nonneg_neg)
  have pos: "0 < arctan (y / x)" if "x < 0" "y < 0"
    using that by (simp add: divide_neg_neg)
  show ?thesis
    using b neg pos pi_gt_zero by (auto simp: np_arctan2_def)
qed

lemma arctan3_elem_range: "0 \<le> arctan3_elem y x \<and> arctan3_elem y x < 2 * pi"
  using np_arctan2_range [of y x] pi_gt_zero by (auto simp: arctan3_elem_def Let_def)

lemma arctan3_elems:
  assumes "arctan3 y x = Inr theta" "t \<in> set theta"
  shows "0 \<le> t \<and> t < 2 * pi"
  using assms arctan3_elem_range
  by (auto simp: arctan3_def np_broadcast2_def split: if_splits dest!: set_zip_leftD
      simp: in_set_zip)

lemma mask_nan_elems:
  assumes "d \<in> set (mask_nan ps m xs)"
  shows "d = NaN \<or> d \<in> set xs"
  using assms by (auto simp: mask_nan_def)

lemma err_bind_InrE:
  assumes "err_bind m k = Inr r"
  obtains x where "m = Inr x" "k x = Inr r"
  using assms by (cases m) (simp_all add: err_bind_def)

lemma wave_spectra_bands_Tdir:
  assumes "wave_spectra_bands F0 dF0 dof0 Cuu Cvv Cpp Cpu Cpv Cuv lf_cutoff min_spec
             = Inr (us, ps, Tdir, Ts, F, dF, dof)"
    and "d \<in> set Tdir"
  shows "d = NaN \<or> (\<exists>t. d = Fin (57.296 * t) \<and> 0 \<le> t \<and> t < 2 * pi)"
proof -
  from assms(1) obtain a b theta ps' where
    th: "arctan3 a b = Inr theta" and
    T: "Tdir = mask_nan ps' min_spec (map (\<lambda>t. Fin (57.296 * t)) theta)"
    unfolding wave_spectra_bands_def Let_def
    by (elim err_bind_InrE) auto
  from assms(2) T have "d = NaN \<or> d \<in> set (map (\<lambda>t. Fin (57.296 * t)) theta)"
    using mask_nan_elems by blast
  then show ?thesis using arctan3_elems [OF th] by auto
qed

lemma wave_spectra_body_Tdir:
  assumes "wave_spectra_body u v p dt nF lf_cutoff min_spec = Inr (us, ps, Tdir, Ts, F, dF, dof)"
    and "d \<in> set Tdir"
  shows "d = NaN \<or> (\<exists>t. d = Fin (57.296 * t) \<and> 0 \<le> t \<and> t < 2 * pi)"
proof -
  have "\<exists>F0 dF0 dof0 Cuu Cvv Cpp Cpu Cpv Cuv.
          wave_spectra_bands F0 dF0 dof0 Cuu Cvv Cpp Cpu Cpv Cuv lf_cutoff min_spec
            = Inr (us, ps, Tdir, Ts, F, dF, dof)"
    using assms(1) unfolding wave_spectra_body_def Let_def
    apply (elim err_bind_InrE)
    apply (simp only: split: prod.splits)
    apply (elim err_bind_InrE)
    apply (simp only: split: prod.splits)
    apply (elim err_bind_InrE)
    apply (simp only: split: prod.splits)
    apply (elim err_bind_InrE)
    apply (simp only: split: prod.splits)
    apply (elim err_bind_InrE)
    apply (simp only: split: prod.splits)
    apply (elim err_bind_InrE)
    apply (simp only: split: prod.splits)
    apply blast
    done
  then show ?thesis using wave_spectra_bands_Tdir assms(2) by blast
qed


lemma wave_spectra_Tdir:
  assumes "wave_spectra u v p dt nF hp hv params = Inr (us, ps, Tdir, Ts, F, dF, dof)"
    and "d \<in> set Tdir"
  shows "d = NaN \<or> (\<exists>t. d = Fin (57.296 * t) \<and> 0 \<le> t \<and> t < 2 * pi)"
  using assms wave_spectra_body_Tdir
  by (simp add: wave_spectra_def Let_def split: if_splits)

text \<open>
  Claim C6, as the code has it. \<open>arctan3\<close> returns angles in \<open>[0, 2*pi)\<close>. Every
  direction that \<open>wave_spectra\<close> returns is not-a-number (a band below the minimum
  spectral level) or 57.296 times such an angle, which lies in \<open>[0, 360.002)\<close>: the
  factor 57.296 is larger than \<open>180/pi\<close>, so the bound 360 itself does not hold.
\<close>

theorem wave_direction_range:
  "(\<forall>theta. arctan3 y x = Inr theta \<longrightarrow> (\<forall>t \<in> set theta. 0 \<le> t \<and> t < 2 * pi))
   \<and> (\<forall>us ps Tdir Ts F dF dof.
        wave_spectra u v p dt nF hp hv params = Inr (us, ps, Tdir, Ts, F, dF, dof) \<longrightarrow>
        (\<forall>d \<in> set Tdir. d = NaN \<or> (\<exists>t. d = Fin t \<and> 0 \<le> t \<and> t < 360.002)))"
proof (intro conjI allI impI ballI)
  fix theta t assume "arctan3 y x = Inr theta" "t \<in> set theta"
  then show "0 \<le> t" "t < 2 * pi" using arctan3_elems by blast+
next
  fix us ps Tdir Ts F dF dof d
  assume "wave_spectra u v p dt nF hp hv params = Inr (us, ps, Tdir, Ts, F, dF, dof)"
    and "d \<in> set Tdir"
  then consider "d = NaN" | t where "d = Fin (57.296 * t)" "0 \<le> t" "t < 2 * pi"
    using wave_spectra_Tdir by blast
  then show "d = NaN \<or> (\<exists>t. d = Fin t \<and> 0 \<le> t \<and> t < 360.002)"
  proof cases
    case 1 then show ?thesis by simp
  next
    case 2
    have "57.296 * t < 57.296 * (2 * (3141598 / 1000000))"
      using 2(3) pi_upper by simp
    then have "57.296 * t < 360.002" by simp
    moreover have "0 \<le> 57.296 * t" using 2(2) by simp
    ultimately show ?thesis using 2(1) by blast
  qed
qed

text \<open>
  Claim C6 as stated, with the range \<open>[0, 360)\<close>, fails on the impulse series: the
  direction of both bands is \<open>57.296 * (2*pi - arctan (1 / 1000000))\<close>, which is at
  least 360.
\<close>

theorem wave_direction_reaches_360:
  "wave_spectra (- (1 / 10000) # replicate 19 0) (100 # replicate 19 0) (100 # replicate 19 0)
       (1 / 20) 2 0 0 [0.03, 200, 0.1, 0]
     = Inr ([50 + 1 / 20000000000, 50 + 1 / 20000000000], [50, 50],
            [Fin (57.296 * (2 * pi - arctan (1 / 1000000))),
             Fin (57.296 * (2 * pi - arctan (1 / 1000000)))],
            [Fin 0, Fin 0], [2, 7], [3, 7], [6, 14])
   \<and> 360 \<le> 57.296 * (2 * pi - arctan (1 / 1000000))"
proof -
  have "arctan (1 / 1000000) \<le> (1 / 1000000 :: real)"
    by (rule arctan_le_self_nonneg) simp
  then have "2 * (3141582 / 1000000) - 1 / 1000000 \<le> 2 * pi - arctan (1 / 1000000)"
    using pi_lower by linarith
  then have "57.296 * (2 * (3141582 / 1000000) - 1 / 1000000)
      \<le> 57.296 * (2 * pi - arctan (1 / 1000000))"
    by (rule mult_left_mono) simp
  then have "360 \<le> 57.296 * (2 * pi - arctan (1 / 1000000))" by simp
  then show ?thesis using wave_spectra_impulse by simp
qed

theorem wave_direction_range_witness:
  "arctan3 [- (1 / 20000), 1] [50, 0] = Inr [2 * pi - arctan (1 / 1000000), pi / 2]
   \<and> (0 \<le> 2 * pi - arctan (1 / 1000000) \<and> 2 * pi - arctan (1 / 1000000) < 2 * pi)
   \<and> wave_spectra (- (1 / 10000) # replicate 19 0) (100 # replicate 19 0) (100 # replicate 19 0)
       (1 / 20) 2 0 0 [0.03, 200, 0.1, 0]
     = Inr ([50 + 1 / 20000000000, 50 + 1 / 20000000000], [50, 50],
            [Fin (57.296 * (2 * pi - arctan (1 / 1000000))),
             Fin (57.296 * (2 * pi - arctan (1 / 1000000)))],
            [Fin 0, Fin 0], [2, 7], [3, 7], [6, 14])
   \<and> (0 \<le> 57.296 * (2 * pi - arctan (1 / 1000000))
        \<and> 57.296 * (2 * pi - arctan (1 / 1000000)) < 360.002)"
proof -
  have a: "arctan3 [- (1 / 20000), 1] [50, 0] = Inr [2 * pi - arctan (1 / 1000000), pi / 2]"
    by (simp add: arctan3_def np_broadcast2_def arctan3_elem_def np_arctan2_def Let_def
        arctan_minus)
  show ?thesis
    using wave_direction_range [of "[- (1 / 20000), 1]" "[50, 0]"
        "- (1 / 10000) # replicate 19 0" "100 # replicate 19 0" "100 # replicate 19 0"
        "1 / 20" 2 0 0 "[0.03, 200, 0.1, 0]"]
      a wave_spectra_impulse
    by auto
qed

lemma butlast_impulse: "butlast (a # replicate (Suc m) 0) = a # replicate m 0"
  by (induction m) simp_all

subsection \<open>Odd-length input\<close>

text \<open>
  Claim C10. For an odd-length input \<open>wave_spectra\<close> returns what it returns for the
  same series without their last sample; an even-length input goes through the spectral
  computation as it is.
\<close>

theorem wave_spectra_odd_length:
  "(odd (length p) \<longrightarrow>
      wave_spectra u v p dt nF hp hv params
        = wave_spectra (butlast u) (butlast v) (butlast p) dt nF hp hv params)
   \<and> (even (length p) \<longrightarrow>
      wave_spectra u v p dt nF hp hv params
        = (if length params < 4 then Inl IndexError
           else wave_spectra_body u v p dt nF (params ! 0) (params ! 2)))"
proof (intro conjI impI)
  assume "odd (length p)"
  then have "length p mod 2 = 1" "length (butlast p) mod 2 \<noteq> 1"
    unfolding length_butlast by presburger+
  then show "wave_spectra u v p dt nF hp hv params
        = wave_spectra (butlast u) (butlast v) (butlast p) dt nF hp hv params"
    by (simp add: wave_spectra_def Let_def)
next
  assume "even (length p)"
  then have "length p mod 2 \<noteq> 1" by presburger
  then show "wave_spectra u v p dt nF hp hv params
        = (if length params < 4 then Inl IndexError
           else wave_spectra_body u v p dt nF (params ! 0) (params ! 2))"
    by (simp add: wave_spectra_def Let_def)
qed

theorem wave_spectra_odd_length_witness:
  "odd (length (100 # replicate 20 (0::real)))
   \<and> wave_spectra (- (1 / 10000) # replicate 20 0) (100 # replicate 20 0) (100 # replicate 20 0)
       (1 / 20) 2 0 0 [0.03, 200, 0.1, 0]
     = wave_spectra (- (1 / 10000) # replicate 19 0) (100 # replicate 19 0) (100 # replicate 19 0)
       (1 / 20) 2 0 0 [0.03, 200, 0.1, 0]
   \<and> even (length (100 # replicate 19 (0::real)))
   \<and> wave_spectra (- (1 / 10000) # replicate 19 0) (100 # replicate 19 0) (100 # replicate 19 0)
       (1 / 20) 2 0 0 [0.03, 200, 0.1, 0]
     = wave_spectra_body (- (1 / 10000) # replicate 19 0) (100 # replicate 19 0)
         (100 # replicate 19 0) (1 / 20) 2 0.03 0.1"
proof -
  have n: "(20::nat) = Suc 19" by simp
  have b: "butlast (a # replicate 20 0) = a # replicate 19 (0::real)" for a
    unfolding n by (rule butlast_impulse)
  have o: "odd (length (100 # replicate 20 (0::real)))" by simp
  have e: "even (length (100 # replicate 19 (0::real)))" by simp
  from o have A: "wave_spectra (- (1 / 10000) # replicate 20 0) (100 # replicate 20 0)
        (100 # replicate 20 0) (1 / 20) 2 0 0 [0.03, 200, 0.1, 0]
      = wave_spectra (butlast (- (1 / 10000) # replicate 20 0)) (butlast (100 # replicate 20 0))
          (butlast (100 # replicate 20 0)) (1 / 20) 2 0 0 [0.03, 200, 0.1, 0]"
    using wave_spectra_odd_length [of "100 # replicate 20 0" "- (1 / 10000) # replicate 20 0"
      "100 # replicate 20 0" "1 / 20" 2 0 0 "[0.03, 200, 0.1, 0]"] by blast
  from e have B: "wave_spectra (- (1 / 10000) # replicate 19 0) (100 # replicate 19 0)
        (100 # replicate 19 0) (1 / 20) 2 0 0 [0.03, 200, 0.1, 0]
      = (if length [0.03, 200, 0.1, 0 :: real] < 4 then Inl IndexError
         else wave_spectra_body (- (1 / 10000) # replicate 19 0) (100 # replicate 19 0)
           (100 # replicate 19 0) (1 / 20) 2 ([0.03, 200, 0.1, 0] ! 0) ([0.03, 200, 0.1, 0] ! 2))"
    using wave_spectra_odd_length [of "100 # replicate 19 0" "- (1 / 10000) # replicate 19 0"
      "100 # replicate 19 0" "1 / 20" 2 0 0 "[0.03, 200, 0.1, 0]"] by blast
  have B': "wave_spectra (- (1 / 10000) # replicate 19 0) (100 # replicate 19 0)
        (100 # replicate 19 0) (1 / 20) 2 0 0 [0.03, 200, 0.1, 0]
      = wave_spectra_body (- (1 / 10000) # replicate 19 0) (100 # replicate 19 0)
           (100 # replicate 19 0) (1 / 20) 2 0.03 0.1"
    unfolding B by simp
  show ?thesis
    using o e A [unfolded b] B' by (intro conjI)
qed


section \<open>Burst summary of the spectra: \<open>wave_spectra_statistics\<close>\<close>

text \<open>
  \<open>xs[idx]\<close> for an integer index array: an index from \<open>-len(xs)\<close> to \<open>-1\<close> counts
  from the end, an index outside \<open>-len(xs) .. len(xs)-1\<close> raises \<open>IndexError\<close>.
\<close>

definition np_take_int :: "'a list \<Rightarrow> int list \<Rightarrow> error + 'a list" where
  "np_take_int xs idx =
     (let n = int (length xs)
      in if \<forall>i \<in> set idx. - n \<le> i \<and> i < n
         then Inr (map (\<lambda>i. xs ! nat (if i < 0 then i + n else i)) idx)
         else Inl IndexError)"

text \<open>
  The parabolic fit in log frequency, \<open>np.exp(np.log(F[nP]) + Fs)[0]\<close> with
  \<open>Fs = (np.log(F[nP+1]) - np.log(F[nP-1])) * (-(C - A) / (2*(A - 2*B + C))) / 2\<close>.
  \<open>B\<close> is the maximum of the spectrum, so a zero divisor means \<open>A = B = C\<close> and the
  float division is \<open>0/0\<close>, not-a-number.
\<close>

definition peak_frequency :: "real \<Rightarrow> real \<Rightarrow> real \<Rightarrow> real \<Rightarrow> real \<Rightarrow> real \<Rightarrow> float64" where
  "peak_frequency A B C F_below F_peak F_above =
     (let den = 2 * (A - 2 * B + C)
      in if den = 0 then NaN
         else Fin (exp (ln F_peak + (ln F_above - ln F_below) * (- (C - A) / den) / 2)))"

text \<open>
  \<open>wave_spectra_statistics\<close> returns \<open>(Hm0, Fs, Tdir, Ts)\<close>. \<open>np.max\<close> of an empty array
  raises \<open>ValueError\<close>; the power \<open>**0.5\<close> of a negative number is not-a-number.
  \<open>nP\<close> holds every index at which the spectrum equals its maximum.
\<close>

definition wave_spectra_statistics ::
  "real list \<Rightarrow> real list \<Rightarrow> float64 list \<Rightarrow> float64 list \<Rightarrow> real list \<Rightarrow> real list
     \<Rightarrow> error + (float64 \<times> float64 \<times> float64 \<times> float64)" where
  "wave_spectra_statistics u_spectra p_spectra Tdir Ts F dF =
     err_bind (np_broadcast2 (*) p_spectra dF) (\<lambda>energy.
       if energy = [] then Inl ValueError
       else
         let m0 = Max (set (np_cumsum energy));
             Hm0 = (if m0 < 0 then NaN else Fin (sqrt m0 * 4));
             B = Max (set p_spectra);
             nP = filter (\<lambda>i. p_spectra ! i = B) [0..<length p_spectra]
         in err_bind (np_take_int p_spectra (map (\<lambda>i. int i - 1) nP)) (\<lambda>p_below.
            err_bind (np_take_int p_spectra (map (\<lambda>i. int i + 1) nP)) (\<lambda>p_above.
            err_bind (np_take_int F (map (\<lambda>i. int i + 1) nP)) (\<lambda>F_above.
            err_bind (np_take_int F (map (\<lambda>i. int i - 1) nP)) (\<lambda>F_below.
            err_bind (np_take_int F (map int nP)) (\<lambda>F_peak.
              let A = p_below ! 0;
                  C = p_above ! 0;
                  Fs = peak_frequency A B C (F_below ! 0) (F_peak ! 0) (F_above ! 0)
              in err_bind (np_take_int Tdir (map int nP)) (\<lambda>Tdir_peak.
                 err_bind (np_take_int Ts (map int nP)) (\<lambda>Ts_peak.
                   Inr (Hm0, Fs, Tdir_peak ! 0, Ts_peak ! 0)))))))))"

lemma err_bind_Inl [simp]: "err_bind (Inl e) k = Inl e"
  by (simp add: err_bind_def)

lemma err_bind_Inr [simp]: "err_bind (Inr x) k = k x"
  by (simp add: err_bind_def)

subsection \<open>A peak at the last band\<close>

lemma np_take_int_below:
  assumes "xs \<noteq> []" "\<forall>i \<in> set idx. i < length xs"
  shows "np_take_int xs (map (\<lambda>i. int i - 1) idx)
       = Inr (map (\<lambda>i. xs ! (if i = 0 then length xs - 1 else i - 1)) idx)"
proof -
  have "- int (length xs) \<le> int i - 1 \<and> int i - 1 < int (length xs)" if "i \<in> set idx" for i
    using assms that by (cases xs) auto
  moreover have "nat (if int i - 1 < 0 then int i - 1 + int (length xs) else int i - 1)
      = (if i = 0 then length xs - 1 else i - 1)" for i
    using assms(1) by (cases xs) (auto simp: nat_diff_distrib)
  ultimately show ?thesis
    by (simp add: np_take_int_def Let_def)
qed

lemma np_take_int_above_last:
  assumes "length xs - 1 \<in> set idx"
  shows "np_take_int xs (map (\<lambda>i. int i + 1) idx) = Inl IndexError"
proof -
  have "\<not> (int (length xs - 1) + 1 < int (length xs))" by simp
  then have "\<exists>i \<in> set (map (\<lambda>i. int i + 1) idx). \<not> (- int (length xs) \<le> i \<and> i < int (length xs))"
    using assms by (intro bexI [of _ "int (length xs - 1) + 1"]) auto
  then show ?thesis
    by (auto simp: np_take_int_def Let_def)
qed

lemma last_peak_raises:
  assumes "p_spectra \<noteq> []" "length dF = length p_spectra"
    and "p_spectra ! (length p_spectra - 1) = Max (set p_spectra)"
  shows "wave_spectra_statistics u_spectra p_spectra Tdir Ts F dF = Inl IndexError"
proof -
  let ?nP = "filter (\<lambda>i. p_spectra ! i = Max (set p_spectra)) [0..<length p_spectra]"
  have last: "length p_spectra - 1 \<in> set ?nP"
    using assms(1,3) by simp
  have "\<forall>i \<in> set ?nP. i < length p_spectra" by simp
  note below = np_take_int_below [OF assms(1) this]
  have "dF \<noteq> []" using assms(1,2) by auto
  then show ?thesis
    using assms(1,2)
    by (simp add: wave_spectra_statistics_def np_broadcast2_def Let_def below
        np_take_int_above_last [OF last])
qed


subsection \<open>A peak at the first band\<close>

lemma np_take_int_single:
  assumes "- int (length xs) \<le> i" "i < int (length xs)"
  shows "np_take_int xs [i] = Inr [xs ! nat (if i < 0 then i + int (length xs) else i)]"
  using assms by (simp add: np_take_int_def Let_def)

lemma first_peak_index:
  assumes "0 < length p" "\<forall>i. 0 < i \<and> i < length p \<longrightarrow> p ! i < (p ! 0 :: real)"
  shows "Max (set p) = p ! 0" "filter (\<lambda>i. p ! i = p ! 0) [0..<length p] = [0]"
proof -
  have le: "x \<le> p ! 0" if "x \<in> set p" for x
  proof -
    from that obtain i where "i < length p" "x = p ! i" by (auto simp: in_set_conv_nth)
    then show ?thesis using assms(2) by (cases "i = 0") (auto intro: less_imp_le)
  qed
  show "Max (set p) = p ! 0"
    using assms(1) le by (intro Max_eqI) auto
  have "[0..<length p] = 0 # [1..<length p]"
    using assms(1) by (simp add: upt_rec)
  moreover have "filter (\<lambda>i. p ! i = p ! 0) [1..<length p] = []"
  proof -
    have "p ! i \<noteq> p ! 0" if "1 \<le> i" "i < length p" for i
      using assms(2) that by (metis less_irrefl less_eq_Suc_le One_nat_def)
    then show ?thesis by (auto simp: filter_empty_conv)
  qed
  ultimately show "filter (\<lambda>i. p ! i = p ! 0) [0..<length p] = [0]" by simp
qed

lemma first_peak_returns:
  assumes "2 \<le> length p_spectra"
    and "length dF = length p_spectra" "length F = length p_spectra"
    and "length Tdir = length p_spectra" "length Ts = length p_spectra"
    and "\<forall>i. 0 < i \<and> i < length p_spectra \<longrightarrow> p_spectra ! i < p_spectra ! 0"
  shows "wave_spectra_statistics u_spectra p_spectra Tdir Ts F dF
       = Inr (let m0 = Max (set (np_cumsum (map2 (*) p_spectra dF)))
              in if m0 < 0 then NaN else Fin (sqrt m0 * 4),
              Fin (exp (ln (F ! 0) + (ln (F ! 1) - ln (last F))
                   * (- (p_spectra ! 1 - last p_spectra)
                      / (2 * (last p_spectra - 2 * p_spectra ! 0 + p_spectra ! 1))) / 2)),
              Tdir ! 0, Ts ! 0)"
proof -
  let ?n = "length p_spectra"
  have pos: "0 < ?n" and ne: "p_spectra \<noteq> []" "dF \<noteq> []" "F \<noteq> []"
    using assms(1-3) by auto
  note pk = first_peak_index [OF pos assms(6)]
  have A: "last p_spectra < p_spectra ! 0"
    using assms(1,6) ne(1) by (simp add: last_conv_nth)
  have C: "p_spectra ! 1 < p_spectra ! 0"
    using assms(1,6) by simp
  have den: "2 * (last p_spectra - 2 * p_spectra ! 0 + p_spectra ! 1) \<noteq> 0"
    using A C by simp
  have e: "map2 (*) p_spectra dF \<noteq> []"
    using ne by (cases p_spectra; cases dF) simp_all
  have t1: "np_take_int xs [- 1] = Inr [last xs]" if "xs \<noteq> []" for xs :: "'b list"
    using that np_take_int_single [of xs "- 1"]
    by (cases xs) (auto simp: last_conv_nth nat_diff_distrib)
  have t2: "np_take_int xs [1] = Inr [xs ! 1]" if "2 \<le> length xs" for xs :: "'b list"
    using that np_take_int_single [of xs 1] by simp
  have t3: "np_take_int xs [0] = Inr [xs ! 0]" if "2 \<le> length xs" for xs :: "'b list"
    using that np_take_int_single [of xs 0] by (cases xs) simp_all
  show ?thesis
    using assms(1-5) ne e den
    by (simp add: wave_spectra_statistics_def np_broadcast2_def Let_def pk t1 t2 t3
        peak_frequency_def)
qed

text \<open>
  Claim C2, as the code has it. There is no not-a-number fallback for a peak at the edge
  of the spectrum. When the maximum of the spectrum sits at the last band (as it does for
  a zero-energy spectrum, where every band is a maximum), \<open>p_spectra[nP+1]\<close> raises
  \<open>IndexError\<close>. When the maximum sits at the first band only, the call returns: the
  peak frequency is a finite number, and direction and spread are the entries of
  \<open>Tdir\<close> and \<open>Ts\<close> at band 0.
\<close>

theorem wave_spectra_statistics_edge_peak:
  "(p_spectra \<noteq> [] \<and> length dF = length p_spectra
      \<and> p_spectra ! (length p_spectra - 1) = Max (set p_spectra)
    \<longrightarrow> wave_spectra_statistics u_spectra p_spectra Tdir Ts F dF = Inl IndexError)
   \<and> (2 \<le> length p_spectra \<and> length dF = length p_spectra \<and> length F = length p_spectra
      \<and> length Tdir = length p_spectra \<and> length Ts = length p_spectra
      \<and> (\<forall>i. 0 < i \<and> i < length p_spectra \<longrightarrow> p_spectra ! i < p_spectra ! 0)
    \<longrightarrow> (\<exists>Hm0 Fs. wave_spectra_statistics u_spectra p_spectra Tdir Ts F dF
              = Inr (Hm0, Fin Fs, Tdir ! 0, Ts ! 0)))"
  using last_peak_raises first_peak_returns by (auto simp: Let_def)


lemma first_peak_example:
  "\<forall>i. 0 < i \<and> i < length [3, 1, 2 :: real] \<longrightarrow> [3, 1, 2 :: real] ! i < [3, 1, 2] ! 0"
  by (auto simp: less_Suc_eq numeral_3_eq_3)

text \<open>
  Claim C2 as stated fails: with the peak at the last of three bands, and with zero
  energy, the call raises \<open>IndexError\<close>; with the peak at the first band it returns
  finite values (direction 10, spread 1), not not-a-number.
\<close>

theorem wave_spectra_statistics_no_nan_fallback:
  "wave_spectra_statistics [2, 3, 4] [1, 2, 3] [Fin 10, Fin 20, Fin 30] [Fin 1, Fin 2, Fin 3]
       [1, 2, 3] [1, 1, 1] = Inl IndexError
   \<and> wave_spectra_statistics [0, 0, 0] [0, 0, 0] [NaN, NaN, NaN] [NaN, NaN, NaN]
       [1, 2, 3] [1, 1, 1] = Inl IndexError
   \<and> wave_spectra_statistics [4, 2, 3] [3, 1, 2] [Fin 10, Fin 20, Fin 30] [Fin 1, Fin 2, Fin 3]
       [1, 2, 3] [1, 1, 1]
     = Inr (Fin (sqrt 6 * 4), Fin (exp ((ln 3 - ln 2) / 12)), Fin 10, Fin 1)"
proof (intro conjI)
  show "wave_spectra_statistics [2, 3, 4] [1, 2, 3] [Fin 10, Fin 20, Fin 30] [Fin 1, Fin 2, Fin 3]
       [1, 2, 3] [1, 1, 1] = Inl IndexError"
    by (rule last_peak_raises) simp_all
  show "wave_spectra_statistics [0, 0, 0] [0, 0, 0] [NaN, NaN, NaN] [NaN, NaN, NaN]
       [1, 2, 3] [1, 1, 1] = Inl IndexError"
    by (rule last_peak_raises) simp_all
  show "wave_spectra_statistics [4, 2, 3] [3, 1, 2] [Fin 10, Fin 20, Fin 30] [Fin 1, Fin 2, Fin 3]
       [1, 2, 3] [1, 1, 1]
     = Inr (Fin (sqrt 6 * 4), Fin (exp ((ln 3 - ln 2) / 12)), Fin 10, Fin 1)"
    using first_peak_example
    by (subst first_peak_returns) (simp_all add: np_cumsum_def upt_rec Let_def field_simps)
qed

theorem wave_spectra_statistics_edge_peak_witness:
  "wave_spectra_statistics [2, 3, 4] [1, 2, 3] [Fin 10, Fin 20, Fin 30] [Fin 1, Fin 2, Fin 3]
       [1, 2, 3] [1, 1, 1] = Inl IndexError
   \<and> (\<exists>Hm0 Fs. wave_spectra_statistics [4, 2, 3] [3, 1, 2] [Fin 10, Fin 20, Fin 30]
         [Fin 1, Fin 2, Fin 3] [1, 2, 3] [1, 1, 1] = Inr (Hm0, Fin Fs, Fin 10, Fin 1))"
  using wave_spectra_statistics_edge_peak [of "[1, 2, 3]" "[1, 1, 1]" "[2, 3, 4]"
      "[Fin 10, Fin 20, Fin 30]" "[Fin 1, Fin 2, Fin 3]" "[1, 2, 3]"]
    wave_spectra_statistics_edge_peak [of "[3, 1, 2]" "[1, 1, 1]" "[4, 2, 3]"
      "[Fin 10, Fin 20, Fin 30]" "[Fin 1, Fin 2, Fin 3]" "[1, 2, 3]"]
    first_peak_example
  by simp

end
